theory Spec2Isabelle
  imports Main
begin

section \<open>Host-language strings, numbers and arrays\<close>

text \<open>
  The label code of \<^verbatim>\<open>packages/react/src/component.tsx\<close> works on strings, arrays and
  plain objects. Strings are modelled as \<^typ>\<open>string\<close>; the keys of a route config are
  MIME types and category names, which are ASCII, and \<open>toUpperCase\<close> is modelled on
  ASCII letters (any other character is left in place). Numbers are the integer counts
  of a route config and the lengths of arrays, modelled as \<^typ>\<open>int\<close> and printed in
  decimal, as a template literal prints an integer below \<open>10^21\<close>. Every place where
  the source would throw is an \<open>Inl\<close> result.
\<close>

datatype error = TypeError

definition toUpperCase_char :: "char \<Rightarrow> char" where
  "toUpperCase_char c =
     (let n = (of_char c :: nat)
      in if 97 \<le> n \<and> n \<le> 122 then char_of (n - 32) else c)"

definition toUpperCase :: "string \<Rightarrow> string" where
  "toUpperCase str = map toUpperCase_char str"

definition charAt :: "string \<Rightarrow> nat \<Rightarrow> string" where
  \<comment> \<open>\<open>str.charAt(i)\<close>: the one-character string at \<open>i\<close>, the empty string out of range.\<close>
  "charAt str i = (if i < length str then [str ! i] else [])"

definition slice :: "string \<Rightarrow> nat \<Rightarrow> string" where
  \<comment> \<open>\<open>str.slice(i)\<close> for a start index \<open>i \<ge> 0\<close>.\<close>
  "slice str i = drop i str"

definition str_includes :: "string \<Rightarrow> char \<Rightarrow> bool" where
  \<comment> \<open>\<open>str.includes(c)\<close> for a one-character needle.\<close>
  "str_includes str c = (c \<in> set str)"

fun split_str :: "string \<Rightarrow> char \<Rightarrow> string list" where
  \<comment> \<open>\<open>str.split(c)\<close> for a one-character separator: \<open>"".split("/")\<close> is \<open>[""]\<close>.\<close>
  "split_str [] c = [[]]"
| "split_str (x # xs) c =
     (if x = c then [] # split_str xs c
      else (case split_str xs c of
              [] \<Rightarrow> [[x]]
            | y # ys \<Rightarrow> (x # y) # ys))"

fun join_str :: "string list \<Rightarrow> string \<Rightarrow> string" where
  \<comment> \<open>\<open>arr.join(sep)\<close> on an array of strings.\<close>
  "join_str [] sep = []"
| "join_str [x] sep = x"
| "join_str (x # y # ys) sep = x @ sep @ join_str (y # ys) sep"

definition index_at :: "'a list \<Rightarrow> nat \<Rightarrow> 'a option" where
  \<comment> \<open>\<open>arr[i]\<close>: \<open>undefined\<close> (here \<open>None\<close>) out of range.\<close>
  "index_at xs i = (if i < length xs then Some (xs ! i) else None)"

definition pop :: "'a list \<Rightarrow> 'a option \<times> 'a list" where
  \<comment> \<open>\<open>arr.pop()\<close>: the removed last element (\<open>undefined\<close> on an empty array) and the
      array that is left.\<close>
  "pop xs = (if xs = [] then (None, []) else (Some (last xs), butlast xs))"

definition template_str :: "string option \<Rightarrow> string" where
  \<comment> \<open>A string that may be \<open>undefined\<close>, interpolated into a template literal.\<close>
  "template_str v = (case v of None \<Rightarrow> ''undefined'' | Some s \<Rightarrow> s)"

definition digit_char :: "nat \<Rightarrow> char" where
  "digit_char d = char_of (48 + d)"

fun digits_of_nat :: "nat \<Rightarrow> string" where
  "digits_of_nat n =
     (if n < 10 then [digit_char n]
      else digits_of_nat (n div 10) @ [digit_char (n mod 10)])"

definition Number_toString :: "int \<Rightarrow> string" where
  \<comment> \<open>An integer interpolated into a template literal: its decimal digits.\<close>
  "Number_toString n =
     (if n < 0 then CHR ''-'' # digits_of_nat (nat (- n)) else digits_of_nat (nat n))"

fun map_result :: "('a \<Rightarrow> error + 'b) \<Rightarrow> 'a list \<Rightarrow> error + 'b list" where
  \<comment> \<open>\<open>arr.map(f)\<close> for a callback that may throw: the first throw ends the map.\<close>
  "map_result f [] = Inr []"
| "map_result f (x # xs) =
     (case f x of
        Inl e \<Rightarrow> Inl e
      | Inr y \<Rightarrow> (case map_result f xs of Inl e \<Rightarrow> Inl e | Inr ys \<Rightarrow> Inr (y # ys)))"

section \<open>Route configs\<close>

text \<open>
  An \<open>ExpandedRouteConfig\<close> is a plain object from file-type keys to limits. Its own
  properties are kept in the order in which \<open>Object.keys\<close> enumerates them, so the
  object is an association list; an object has each key once.
\<close>

record limits =
  maxFileSize :: string
  maxFileCount :: "int option"

type_synonym ExpandedRouteConfig = "(string \<times> limits) list"

definition file_type_key :: "string \<Rightarrow> bool" where
  \<comment> \<open>Modelled from the spec: the key type of \<open>ExpandedRouteConfig\<close> is declared in
      \<open>@uploadthing/shared\<close>, not in this file. A key is a file-type name (a MIME type or
      a category such as \<open>image\<close> or \<open>blob\<close>); all that is used of it here is that
      such a name is not the empty string.\<close>
  "file_type_key k = (k \<noteq> [])"

definition Object_keys :: "ExpandedRouteConfig \<Rightarrow> string list" where
  "Object_keys config = map fst config"

definition Object_values :: "ExpandedRouteConfig \<Rightarrow> limits list" where
  "Object_values config = map snd config"

definition property_key :: "string option \<Rightarrow> string" where
  \<comment> \<open>The property name that \<open>config[key]\<close> reads: \<open>undefined\<close> names the property
      \<open>"undefined"\<close>.\<close>
  "property_key key = (case key of None \<Rightarrow> ''undefined'' | Some k \<Rightarrow> k)"

definition get_property :: "ExpandedRouteConfig \<Rightarrow> string option \<Rightarrow> limits option" where
  \<comment> \<open>\<open>config[key]\<close>: \<open>undefined\<close> (here \<open>None\<close>) when the object has no such property.\<close>
  "get_property config key = map_of config (property_key key)"

definition count_above_one :: "int option \<Rightarrow> bool" where
  \<comment> \<open>The condition \<open>v && v > 1\<close> on an optional count: \<open>undefined\<close> and \<open>0\<close> are falsy.\<close>
  "count_above_one v = (case v of None \<Rightarrow> False | Some n \<Rightarrow> n \<noteq> 0 \<and> n > 1)"

section \<open>Permitted file types\<close>

record permitted =
  fileTypes :: "string list"
  multiple :: bool

definition generatePermittedFileTypes :: "ExpandedRouteConfig option \<Rightarrow> permitted" where
  "generatePermittedFileTypes config =
     (let fileTypes = (case config of None \<Rightarrow> [] | Some c \<Rightarrow> Object_keys c);
          maxFileCount = (case config of None \<Rightarrow> [] | Some c \<Rightarrow> map maxFileCount (Object_values c))
      in \<lparr>fileTypes = fileTypes, multiple = list_ex count_above_one maxFileCount\<rparr>)"

section \<open>The label formatter\<close>

definition capitalizeStart :: "string \<Rightarrow> string" where
  "capitalizeStart str = toUpperCase (charAt str 0) @ slice str 1"

definition formatType :: "string \<Rightarrow> error + string" where
  \<comment> \<open>The callback of \<open>allowedTypes.map\<close>: \<open>f.split("/")[1].toUpperCase()\<close> would throw
      on a missing second part.\<close>
  "formatType f =
     (if str_includes f CHR ''/'' then
        (case index_at (split_str f CHR ''/'') 1 of
           None \<Rightarrow> Inl TypeError
         | Some subtype \<Rightarrow> Inr (toUpperCase subtype @ '' file''))
      else Inr (if f = ''blob'' then ''file'' else f))"

definition INTERNAL_doFormatting :: "ExpandedRouteConfig option \<Rightarrow> error + string" where
  "INTERNAL_doFormatting config =
     (case config of
        None \<Rightarrow> Inr []
      | Some c \<Rightarrow>
          (let allowedTypes = Object_keys c in
           case map_result formatType allowedTypes of
             Inl e \<Rightarrow> Inl e
           | Inr formattedTypes \<Rightarrow>
               if length formattedTypes > 1 then
                 (case pop formattedTypes of
                    (lastType, formattedTypes') \<Rightarrow>
                      Inr (join_str formattedTypes' ''s, '' @ '' and '' @ template_str lastType @ ''s''))
               else
                 (let key = index_at allowedTypes 0;
                      formattedKey = index_at formattedTypes 0
                  in case get_property c key of
                       None \<Rightarrow> Inl TypeError
                     | Some l \<Rightarrow>
                         if count_above_one (maxFileCount l) then
                           Inr (template_str formattedKey @ ''s up to '' @ maxFileSize l @ '', max ''
                                @ (case maxFileCount l of None \<Rightarrow> ''undefined'' | Some n \<Rightarrow> Number_toString n))
                         else
                           Inr (template_str formattedKey @ '' ('' @ maxFileSize l @ '')''))))"

definition allowedContentTextLabelGenerator :: "ExpandedRouteConfig option \<Rightarrow> error + string" where
  "allowedContentTextLabelGenerator config =
     (case INTERNAL_doFormatting config of
        Inl e \<Rightarrow> Inl e
      | Inr s \<Rightarrow> Inr (capitalizeStart s))"

section \<open>The display token and the subtype of a key, in the words of the specification\<close>

text \<open>
  The specification describes the token of a key without saying how it is computed:
  for a key of the form \<open>category/subtype\<close>, the subtype in upper case followed by
  \<open>" file"\<close>; for \<open>"blob"\<close>, \<open>"file"\<close>; otherwise the key. The subtype is read here as
  the text after the first \<open>/\<close>, up to the next \<open>/\<close> or the end of the key. These two
  definitions follow the specification and are compared with \<open>formatType\<close> below.
\<close>

definition subtype_of :: "string \<Rightarrow> string" where
  "subtype_of k =
     takeWhile (\<lambda>x. x \<noteq> CHR ''/'') (drop 1 (dropWhile (\<lambda>x. x \<noteq> CHR ''/'') k))"

definition display_token :: "string \<Rightarrow> string" where
  "display_token k =
     (if CHR ''/'' \<in> set k then toUpperCase (subtype_of k) @ '' file''
      else if k = ''blob'' then ''file'' else k)"

section \<open>Upload widgets\<close>

text \<open>
  \<open>UploadButton\<close> and \<open>UploadDropzone\<close> keep their local state with \<open>useState\<close> and
  \<open>useRef\<close> and hand the upload hook an options object of three callbacks. A callback
  supplied by the caller is an optional prop; it acts on the world outside the widget
  (the type \<open>'w\<close>) and cannot reach the widget's local state. It may return or throw
  (a value of type \<open>'x\<close>); a callback of the options object that is left by a throw
  keeps the state changes made before the throw and makes none of those after it.
\<close>

datatype ('x, 's) outcome = Returned 's | Thrown 'x 's

record ('r, 'e, 'x, 'w) props =
  onUploadProgress :: "(int \<Rightarrow> 'w \<Rightarrow> ('x, 'w) outcome) option"
  onClientUploadComplete :: "('r option \<Rightarrow> 'w \<Rightarrow> ('x, 'w) outcome) option"
  onUploadError :: "('e \<Rightarrow> 'w \<Rightarrow> ('x, 'w) outcome) option"

record widget =
  uploadProgress :: int

record button = widget +
  fileInput_value :: "string option"

record 'f dropzone = widget +
  files :: "'f list"

record ('r, 'e, 'x, 's) hook_opts =
  opt_onClientUploadComplete :: "'r option \<Rightarrow> 's \<Rightarrow> ('x, 's) outcome"
  opt_onUploadProgress :: "int \<Rightarrow> 's \<Rightarrow> ('x, 's) outcome"
  opt_onUploadError :: "('e \<Rightarrow> 's \<Rightarrow> ('x, 's) outcome) option"

definition call_optional ::
  "('a \<Rightarrow> 'w \<Rightarrow> ('x, 'w) outcome) option \<Rightarrow> 'a \<Rightarrow> 'w \<Rightarrow> ('x, 'w) outcome" where
  \<comment> \<open>The optional call \<open>cb?.(x)\<close>.\<close>
  "call_optional cb x w = (case cb of None \<Rightarrow> Returned w | Some f \<Rightarrow> f x w)"

definition caller_callback ::
  "('a \<Rightarrow> 'w \<Rightarrow> ('x, 'w) outcome) \<Rightarrow> 'a \<Rightarrow> 's \<times> 'w \<Rightarrow> ('x, 's \<times> 'w) outcome" where
  \<comment> \<open>A function of the caller, run while the widget's local state is \<open>fst s\<close>.\<close>
  "caller_callback f x s =
     (case f x (snd s) of
        Returned w1 \<Rightarrow> Returned (fst s, w1)
      | Thrown t w1 \<Rightarrow> Thrown t (fst s, w1))"

definition invoke ::
  "('a \<Rightarrow> 's \<Rightarrow> ('x, 's) outcome) option \<Rightarrow> 'a \<Rightarrow> 's \<Rightarrow> error + ('x, 's) outcome" where
  \<comment> \<open>The plain call \<open>h(x)\<close> of a value that may be \<open>undefined\<close>.\<close>
  "invoke h x s = (case h of None \<Rightarrow> Inl TypeError | Some f \<Rightarrow> Inr (f x s))"

definition UploadButton_opts ::
  "('r, 'e, 'x, 'w) props \<Rightarrow> ('r, 'e, 'x, button \<times> 'w) hook_opts" where
  "UploadButton_opts p =
     \<lparr>opt_onClientUploadComplete = (\<lambda>res s.
        (let b = fst s; w = snd s;
             b1 = (case fileInput_value b of
                     None \<Rightarrow> b
                   | Some _ \<Rightarrow> b\<lparr>fileInput_value := Some []\<rparr>)
         in case call_optional (onClientUploadComplete p) res w of
              Thrown t w1 \<Rightarrow> Thrown t (b1, w1)
            | Returned w1 \<Rightarrow> Returned (b1\<lparr>uploadProgress := 0\<rparr>, w1))),
      opt_onUploadProgress = (\<lambda>n s.
        (let b = fst s; w = snd s;
             b1 = b\<lparr>uploadProgress := n\<rparr>
         in case call_optional (onUploadProgress p) n w of
              Thrown t w1 \<Rightarrow> Thrown t (b1, w1)
            | Returned w1 \<Rightarrow> Returned (b1, w1))),
      opt_onUploadError = map_option caller_callback (onUploadError p)\<rparr>"

definition UploadDropzone_opts ::
  "('r, 'e, 'x, 'w) props \<Rightarrow> ('r, 'e, 'x, 'f dropzone \<times> 'w) hook_opts" where
  "UploadDropzone_opts p =
     \<lparr>opt_onClientUploadComplete = (\<lambda>res s.
        (let d = fst s; w = snd s;
             d1 = d\<lparr>files := []\<rparr>
         in case call_optional (onClientUploadComplete p) res w of
              Thrown t w1 \<Rightarrow> Thrown t (d1, w1)
            | Returned w1 \<Rightarrow> Returned (d1\<lparr>uploadProgress := 0\<rparr>, w1))),
      opt_onUploadProgress = (\<lambda>n s.
        (let d = fst s; w = snd s;
             d1 = d\<lparr>uploadProgress := n\<rparr>
         in case call_optional (onUploadProgress p) n w of
              Thrown t w1 \<Rightarrow> Thrown t (d1, w1)
            | Returned w1 \<Rightarrow> Returned (d1, w1))),
      opt_onUploadError = map_option caller_callback (onUploadError p)\<rparr>"

datatype trigger = Spinner | Text string

definition UploadDropzone_trigger :: "'f dropzone \<Rightarrow> bool \<Rightarrow> trigger option" where
  \<comment> \<open>What the upload button of the dropzone shows; there is no button (\<open>None\<close>) while
      no file is selected.\<close>
  "UploadDropzone_trigger d isUploading =
     (if length (files d) > 0 then
        Some (if isUploading then Spinner
              else Text (''Upload '' @ Number_toString (int (length (files d))) @ '' file''
                         @ (if length (files d) = 1 then [] else ''s'')))
      else None)"

subsection \<open>Callers used in the examples\<close>

definition record_error :: "string \<Rightarrow> string list \<Rightarrow> (string, string list) outcome" where
  \<comment> \<open>An error callback of a caller that keeps the errors it was given.\<close>
  "record_error e w = Returned (w @ [e])"

definition rethrow_error :: "string \<Rightarrow> string list \<Rightarrow> (string, string list) outcome" where
  \<comment> \<open>An error callback of a caller that keeps the error and throws it again.\<close>
  "rethrow_error e w = Thrown e (w @ [e])"

definition logging_props :: "(unit, string, string, string list) props" where
  "logging_props =
     \<lparr>onUploadProgress = None, onClientUploadComplete = None, onUploadError = Some record_error\<rparr>"

definition rethrowing_props :: "(unit, string, string, string list) props" where
  "rethrowing_props =
     \<lparr>onUploadProgress = None, onClientUploadComplete = None, onUploadError = Some rethrow_error\<rparr>"

section \<open>Properties of the helpers\<close>

lemma split_str_not_Nil: "split_str xs c \<noteq> []"
  by (induction xs) (auto split: list.splits)

lemma hd_split_str: "hd (split_str xs c) = takeWhile (\<lambda>x. x \<noteq> c) xs"
  by (induction xs) (auto split: list.splits simp: split_str_not_Nil)

lemma index_at_split_str_1:
  "c \<in> set xs \<Longrightarrow>
   index_at (split_str xs c) (Suc 0) =
     Some (takeWhile (\<lambda>x. x \<noteq> c) (drop 1 (dropWhile (\<lambda>x. x \<noteq> c) xs)))"
proof (induction xs)
  case Nil
  then show ?case by simp
next
  case (Cons x xs)
  obtain y ys where s: "split_str xs c = y # ys"
    using split_str_not_Nil [of xs c] by (cases "split_str xs c") auto
  show ?case
  proof (cases "x = c")
    case True
    have "y = takeWhile (\<lambda>x. x \<noteq> c) xs"
      using hd_split_str [of xs c] s by simp
    with True s show ?thesis
      by (simp add: index_at_def)
  next
    case False
    with Cons.prems have "c \<in> set xs" by auto
    from Cons.IH [OF this] s False show ?thesis
      by (auto simp: index_at_def split: if_splits)
  qed
qed

lemma formatType_display_token: "formatType f = Inr (display_token f)"
  by (simp add: formatType_def display_token_def subtype_of_def str_includes_def
      index_at_split_str_1)

lemma map_result_formatType: "map_result formatType ks = Inr (map display_token ks)"
  by (induction ks) (simp_all add: formatType_display_token)

lemma pop_nonempty: "xs \<noteq> [] \<Longrightarrow> pop xs = (Some (last xs), butlast xs)"
  by (simp add: pop_def)

lemma doFormatting_multi:
  assumes "1 < length c"
  shows "INTERNAL_doFormatting (Some c) =
         Inr (join_str (butlast (map display_token (Object_keys c))) ''s, '' @ '' and ''
              @ last (map display_token (Object_keys c)) @ ''s'')"
proof -
  have ne: "map display_token (Object_keys c) \<noteq> []"
    using assms by (auto simp: Object_keys_def)
  have len: "1 < length (map display_token (Object_keys c))"
    using assms by (simp add: Object_keys_def)
  show ?thesis
    unfolding INTERNAL_doFormatting_def
    using len
    by (simp add: map_result_formatType pop_nonempty [OF ne] template_str_def Let_def
        del: length_map)
qed

lemma doFormatting_single:
  "INTERNAL_doFormatting (Some [(k, l)]) =
     Inr (if count_above_one (maxFileCount l)
          then display_token k @ ''s up to '' @ maxFileSize l @ '', max ''
               @ (case maxFileCount l of None \<Rightarrow> ''undefined'' | Some n \<Rightarrow> Number_toString n)
          else display_token k @ '' ('' @ maxFileSize l @ '')'')"
  by (simp add: INTERNAL_doFormatting_def Object_keys_def formatType_display_token
      index_at_def get_property_def property_key_def template_str_def)

lemma capitalizeStart_Nil: "capitalizeStart [] = []"
  by (simp add: capitalizeStart_def charAt_def slice_def toUpperCase_def)

lemma capitalizeStart_Cons: "capitalizeStart (c # cs) = toUpperCase_char c # cs"
  by (simp add: capitalizeStart_def charAt_def slice_def toUpperCase_def)

lemma capitalizeStart_append: "s \<noteq> [] \<Longrightarrow> capitalizeStart (s @ t) = capitalizeStart s @ t"
  by (cases s) (simp_all add: capitalizeStart_Cons)

lemma toUpperCase_char_space: "toUpperCase_char CHR '' '' = CHR '' ''"
  by (simp add: toUpperCase_char_def)

lemma display_token_nonempty: "k \<noteq> [] \<Longrightarrow> display_token k \<noteq> []"
  by (simp add: display_token_def)

section \<open>The absent config\<close>

text \<open>
  C10. When the route config is absent, the label generator returns the empty string:
  the formatter returns it, and capitalising the start of the empty string gives the
  empty string back (\<open>charAt(0)\<close> and \<open>slice(1)\<close> are both empty there).
\<close>

theorem absent_config_empty_label:
  "allowedContentTextLabelGenerator None = Inr []
   \<and> INTERNAL_doFormatting None = Inr []
   \<and> capitalizeStart [] = []"
  by (simp add: allowedContentTextLabelGenerator_def INTERNAL_doFormatting_def
      capitalizeStart_Nil)

section \<open>The display token\<close>

text \<open>
  C5. The singular display token of a key, as the callback of \<open>allowedTypes.map\<close>
  computes it: a key that contains \<open>/\<close> gives its subtype (the second part of the
  split at \<open>/\<close>) in upper case followed by \<open>" file"\<close>; otherwise the key \<open>"blob"\<close>
  gives \<open>"file"\<close>; any other key is its own token. The callback never throws. For a
  key of the form \<open>category/subtype\<close> with one \<open>/\<close> the subtype is all that follows
  the \<open>/\<close>. The config \<open>{ "blob": {maxFileSize: "10MB"} }\<close> is labelled
  \<open>"File (10MB)"\<close>.
\<close>

theorem display_token_derivation:
  "formatType k =
     Inr (if CHR ''/'' \<in> set k then toUpperCase (subtype_of k) @ '' file''
          else if k = ''blob'' then ''file'' else k)
   \<and> (CHR ''/'' \<notin> set category \<and> CHR ''/'' \<notin> set subtype \<longrightarrow>
        formatType (category @ ''/'' @ subtype) = Inr (toUpperCase subtype @ '' file''))
   \<and> allowedContentTextLabelGenerator
        (Some [(''blob'', \<lparr>maxFileSize = ''10MB'', maxFileCount = None\<rparr>)])
      = Inr ''File (10MB)''"
proof -
  have a: "formatType k =
     Inr (if CHR ''/'' \<in> set k then toUpperCase (subtype_of k) @ '' file''
          else if k = ''blob'' then ''file'' else k)"
    by (simp add: formatType_display_token display_token_def)
  have b: "formatType (category @ ''/'' @ subtype) = Inr (toUpperCase subtype @ '' file'')"
    if "CHR ''/'' \<notin> set category" and "CHR ''/'' \<notin> set subtype"
  proof -
    have "dropWhile (\<lambda>x. x \<noteq> CHR ''/'') (category @ ''/'' @ subtype) = ''/'' @ subtype"
      using that(1) by (induction category) auto
    moreover have "takeWhile (\<lambda>x. x \<noteq> CHR ''/'') subtype = subtype"
      using that(2) by (induction subtype) auto
    ultimately have "subtype_of (category @ ''/'' @ subtype) = subtype"
      by (simp add: subtype_of_def)
    then show ?thesis
      by (simp add: formatType_display_token display_token_def)
  qed
  have c: "allowedContentTextLabelGenerator
        (Some [(''blob'', \<lparr>maxFileSize = ''10MB'', maxFileCount = None\<rparr>)])
      = Inr ''File (10MB)''"
    by code_simp
  from a b c show ?thesis by blast
qed

text \<open>The three cases of the token at \<open>image/png\<close>, \<open>blob\<close> and \<open>video\<close>.\<close>

theorem display_token_derivation_witness:
  "CHR ''/'' \<notin> set ''image'' \<and> CHR ''/'' \<notin> set ''png''
   \<and> formatType ''image/png'' = Inr ''PNG file''
   \<and> formatType ''blob'' = Inr ''file''
   \<and> formatType ''video'' = Inr ''video''"
proof -
  have u: "toUpperCase ''png'' = ''PNG''"
    by code_simp
  have a: "formatType ''image/png'' = Inr ''PNG file''"
    using display_token_derivation [of "''image/png''" "''image''" "''png''",
        THEN conjunct2, THEN conjunct1]
    by (simp add: u)
  have b: "formatType ''blob'' = Inr ''file''"
    using display_token_derivation [of "''blob''" "''image''" "''png''"] by simp
  have c: "formatType ''video'' = Inr ''video''"
    using display_token_derivation [of "''video''" "''image''" "''png''"] by simp
  from a b c show ?thesis by simp
qed

section \<open>Labels of a config with several keys\<close>

text \<open>
  C2. For a config with more than one key, the formatter maps the keys to their display
  tokens, joins all tokens but the last with \<open>"s, "\<close>, appends \<open>" and "\<close>, the last
  token and \<open>"s"\<close>; the label generator then puts the first character of that phrase,
  and no other, in upper case.
\<close>

theorem multi_key_label:
  assumes "1 < length (Object_keys config)"
  shows "(let tokens = map display_token (Object_keys config);
              phrase = join_str (butlast tokens) ''s, '' @ '' and '' @ last tokens @ ''s''
          in map_result formatType (Object_keys config) = Inr tokens
             \<and> INTERNAL_doFormatting (Some config) = Inr phrase
             \<and> phrase \<noteq> []
             \<and> allowedContentTextLabelGenerator (Some config)
                 = Inr (toUpperCase_char (hd phrase) # tl phrase))"
proof -
  let ?tokens = "map display_token (Object_keys config)"
  let ?phrase = "join_str (butlast ?tokens) ''s, '' @ '' and '' @ last ?tokens @ ''s''"
  have len: "1 < length config"
    using assms by (simp add: Object_keys_def)
  have fmt: "INTERNAL_doFormatting (Some config) = Inr ?phrase"
    by (rule doFormatting_multi [OF len])
  have ne: "?phrase \<noteq> []"
    by simp
  then obtain c cs where p: "?phrase = c # cs"
    by (cases ?phrase) auto
  have "allowedContentTextLabelGenerator (Some config) = Inr (capitalizeStart ?phrase)"
    by (simp add: allowedContentTextLabelGenerator_def fmt)
  also have "capitalizeStart ?phrase = toUpperCase_char (hd ?phrase) # tl ?phrase"
    unfolding p by (simp add: capitalizeStart_Cons)
  finally show ?thesis
    using fmt ne by (simp add: Let_def map_result_formatType)
qed

text \<open>A config of three keys: \<open>image\<close>, \<open>video/mp4\<close> and \<open>blob\<close>.\<close>

theorem multi_key_label_witness:
  "1 < length (Object_keys
        [(''image'', \<lparr>maxFileSize = ''4MB'', maxFileCount = Some 4\<rparr>),
         (''video/mp4'', \<lparr>maxFileSize = ''16MB'', maxFileCount = None\<rparr>),
         (''blob'', \<lparr>maxFileSize = ''8MB'', maxFileCount = None\<rparr>)])
   \<and> allowedContentTextLabelGenerator (Some
        [(''image'', \<lparr>maxFileSize = ''4MB'', maxFileCount = Some 4\<rparr>),
         (''video/mp4'', \<lparr>maxFileSize = ''16MB'', maxFileCount = None\<rparr>),
         (''blob'', \<lparr>maxFileSize = ''8MB'', maxFileCount = None\<rparr>)])
      = Inr ''Images, MP4 file and files''"
proof -
  let ?c = "[(''image'', \<lparr>maxFileSize = ''4MB'', maxFileCount = Some 4\<rparr>),
         (''video/mp4'', \<lparr>maxFileSize = ''16MB'', maxFileCount = None\<rparr>),
         (''blob'', \<lparr>maxFileSize = ''8MB'', maxFileCount = None\<rparr>)]"
  have h: "1 < length (Object_keys ?c)"
    by (simp add: Object_keys_def)
  have t: "map display_token (Object_keys ?c) = [''image'', ''MP4 file'', ''file'']"
    by code_simp
  have u: "toUpperCase_char CHR ''i'' = CHR ''I''"
    by code_simp
  show ?thesis
    using h multi_key_label [OF h] unfolding t by (simp add: Let_def u)
qed

text \<open>
  C1. The claim is that with two keys or more every display token of the label carries
  a trailing \<open>"s"\<close>, so that \<open>image/png\<close> and \<open>video/mp4\<close> give
  \<open>"PNG files and MP4 files"\<close>; the comment above the branch gives
  \<open>"videos, images and files"\<close> as the format. The code joins with \<open>"s, "\<close>, which puts
  no \<open>"s"\<close> after the last joined token: the token before \<open>" and "\<close> stays singular,
  for two keys and for the three keys of the comment.
\<close>

theorem label_singular_before_and:
  "allowedContentTextLabelGenerator (Some
      [(''image/png'', \<lparr>maxFileSize = ''4MB'', maxFileCount = None\<rparr>),
       (''video/mp4'', \<lparr>maxFileSize = ''16MB'', maxFileCount = Some 1\<rparr>)])
     = Inr ''PNG file and MP4 files''
   \<and> allowedContentTextLabelGenerator (Some
      [(''video'', \<lparr>maxFileSize = ''16MB'', maxFileCount = None\<rparr>),
       (''image'', \<lparr>maxFileSize = ''4MB'', maxFileCount = None\<rparr>),
       (''blob'', \<lparr>maxFileSize = ''8MB'', maxFileCount = None\<rparr>)])
     = Inr ''Videos, image and files''"
  by code_simp

section \<open>Labels of a config with one key\<close>

text \<open>
  C3. For a config with exactly one key \<open>k\<close> whose \<open>maxFileCount\<close> is absent or at most
  1, the label is the token of \<open>k\<close> with its first character, and no other, in upper
  case, followed by \<open>" ("\<close>, the entry's \<open>maxFileSize\<close> and \<open>")"\<close>. The token is the
  one that the callback of \<open>allowedTypes.map\<close> computes for \<open>k\<close>.
\<close>

theorem single_key_single_file_label:
  assumes "maxFileCount l = None \<or> (\<exists>n. maxFileCount l = Some n \<and> n \<le> 1)"
  shows "formatType k = Inr (display_token k)
         \<and> allowedContentTextLabelGenerator (Some [(k, l)]) =
             Inr ((case display_token k of [] \<Rightarrow> [] | c # cs \<Rightarrow> toUpperCase_char c # cs)
                  @ '' ('' @ maxFileSize l @ '')'')"
proof -
  have c: "\<not> count_above_one (maxFileCount l)"
    using assms by (auto simp: count_above_one_def)
  have fmt: "INTERNAL_doFormatting (Some [(k, l)]) =
               Inr (display_token k @ '' ('' @ maxFileSize l @ '')'')"
    using c by (simp add: doFormatting_single)
  have "allowedContentTextLabelGenerator (Some [(k, l)]) =
             Inr ((case display_token k of [] \<Rightarrow> [] | c # cs \<Rightarrow> toUpperCase_char c # cs)
                  @ '' ('' @ maxFileSize l @ '')'')"
  proof (cases "display_token k")
    case Nil
    then show ?thesis
      by (simp add: allowedContentTextLabelGenerator_def fmt capitalizeStart_Cons
          toUpperCase_char_space)
  next
    case (Cons c cs)
    then show ?thesis
      by (simp add: allowedContentTextLabelGenerator_def fmt capitalizeStart_Cons)
  qed
  then show ?thesis
    by (simp add: formatType_display_token)
qed

text \<open>
  The config \<open>{ "image/png": {maxFileSize: "4MB"} }\<close> is labelled \<open>"PNG file (4MB)"\<close>,
  and \<open>{ "image": {maxFileSize: "4MB", maxFileCount: 1} }\<close>, whose token starts in lower
  case, is labelled \<open>"Image (4MB)"\<close>.
\<close>

theorem single_key_single_file_label_witness:
  "(maxFileCount \<lparr>maxFileSize = ''4MB'', maxFileCount = None\<rparr> = None
      \<or> (\<exists>n. maxFileCount \<lparr>maxFileSize = ''4MB'', maxFileCount = None\<rparr> = Some n \<and> n \<le> 1))
   \<and> allowedContentTextLabelGenerator
        (Some [(''image/png'', \<lparr>maxFileSize = ''4MB'', maxFileCount = None\<rparr>)])
      = Inr ''PNG file (4MB)''
   \<and> (maxFileCount \<lparr>maxFileSize = ''4MB'', maxFileCount = Some 1\<rparr> = None
      \<or> (\<exists>n. maxFileCount \<lparr>maxFileSize = ''4MB'', maxFileCount = Some 1\<rparr> = Some n \<and> n \<le> 1))
   \<and> allowedContentTextLabelGenerator
        (Some [(''image'', \<lparr>maxFileSize = ''4MB'', maxFileCount = Some 1\<rparr>)])
      = Inr ''Image (4MB)''"
proof -
  let ?l = "\<lparr>maxFileSize = ''4MB'', maxFileCount = None\<rparr>"
  let ?m = "\<lparr>maxFileSize = ''4MB'', maxFileCount = Some 1\<rparr>"
  have h: "maxFileCount ?l = None \<or> (\<exists>n. maxFileCount ?l = Some n \<and> n \<le> 1)"
    by simp
  have g: "maxFileCount ?m = None \<or> (\<exists>n. maxFileCount ?m = Some n \<and> n \<le> 1)"
    by simp
  have t: "display_token ''image/png'' = ''PNG file''"
    and u: "display_token ''image'' = ''image''"
    and v: "toUpperCase_char CHR ''P'' = CHR ''P''"
    and w: "toUpperCase_char CHR ''i'' = CHR ''I''"
    by code_simp+
  have a: "allowedContentTextLabelGenerator (Some [(''image/png'', ?l)]) = Inr ''PNG file (4MB)''"
    using single_key_single_file_label [OF h, of "''image/png''"] unfolding t by (simp add: v)
  have b: "allowedContentTextLabelGenerator (Some [(''image'', ?m)]) = Inr ''Image (4MB)''"
    using single_key_single_file_label [OF g, of "''image''"] unfolding u by (simp add: w)
  from h g a b show ?thesis by blast
qed

text \<open>
  C4. For a config with exactly one key \<open>k\<close>, a file-type key, whose \<open>maxFileCount\<close> is
  present and greater than 1, the label is the token of \<open>k\<close> with its first character,
  and no other, in upper case, followed by \<open>"s up to "\<close>, the entry's \<open>maxFileSize\<close>,
  \<open>", max "\<close> and the count. The token is the one that the callback of
  \<open>allowedTypes.map\<close> computes for \<open>k\<close>, and it is not empty.
\<close>

theorem single_key_many_files_label:
  assumes "maxFileCount l = Some n" and "1 < n" and "file_type_key k"
  shows "formatType k = Inr (display_token k)
         \<and> display_token k \<noteq> []
         \<and> allowedContentTextLabelGenerator (Some [(k, l)]) =
             Inr (toUpperCase_char (hd (display_token k)) # tl (display_token k)
                  @ ''s up to '' @ maxFileSize l @ '', max '' @ Number_toString n)"
proof -
  have c: "count_above_one (maxFileCount l)"
    using assms by (simp add: count_above_one_def)
  have fmt: "INTERNAL_doFormatting (Some [(k, l)]) =
               Inr (display_token k @ ''s up to '' @ maxFileSize l @ '', max ''
                    @ Number_toString n)"
    using c assms(1) by (simp add: doFormatting_single)
  have ne: "display_token k \<noteq> []"
    using assms(3) by (simp add: file_type_key_def display_token_nonempty)
  then obtain c cs where t: "display_token k = c # cs"
    by (cases "display_token k") auto
  have "allowedContentTextLabelGenerator (Some [(k, l)]) =
             Inr (toUpperCase_char (hd (display_token k)) # tl (display_token k)
                  @ ''s up to '' @ maxFileSize l @ '', max '' @ Number_toString n)"
    by (simp add: allowedContentTextLabelGenerator_def fmt t capitalizeStart_Cons)
  with ne show ?thesis
    by (simp add: formatType_display_token)
qed

text \<open>
  The config \<open>{ "image/png": {maxFileSize: "4MB", maxFileCount: 5} }\<close> is labelled
  \<open>"PNG files up to 4MB, max 5"\<close>, and
  \<open>{ "image": {maxFileSize: "4MB", maxFileCount: 5} }\<close>, whose token starts in lower
  case, is labelled \<open>"Images up to 4MB, max 5"\<close>.
\<close>

theorem single_key_many_files_label_witness:
  "maxFileCount \<lparr>maxFileSize = ''4MB'', maxFileCount = Some 5\<rparr> = Some 5
   \<and> (1::int) < 5 \<and> file_type_key ''image/png'' \<and> file_type_key ''image''
   \<and> allowedContentTextLabelGenerator
        (Some [(''image/png'', \<lparr>maxFileSize = ''4MB'', maxFileCount = Some 5\<rparr>)])
      = Inr ''PNG files up to 4MB, max 5''
   \<and> allowedContentTextLabelGenerator
        (Some [(''image'', \<lparr>maxFileSize = ''4MB'', maxFileCount = Some 5\<rparr>)])
      = Inr ''Images up to 4MB, max 5''"
proof -
  let ?l = "\<lparr>maxFileSize = ''4MB'', maxFileCount = Some 5\<rparr>"
  have h1: "maxFileCount ?l = Some 5" by simp
  have h2: "(1::int) < 5" by simp
  have h3: "file_type_key ''image/png''" and h4: "file_type_key ''image''"
    by (simp_all add: file_type_key_def)
  have t: "display_token ''image/png'' = ''PNG file''"
    and u: "display_token ''image'' = ''image''"
    and v: "toUpperCase_char CHR ''P'' = CHR ''P''"
    and w: "toUpperCase_char CHR ''i'' = CHR ''I''"
    and d: "Number_toString 5 = ''5''"
    by code_simp+
  have a: "allowedContentTextLabelGenerator (Some [(''image/png'', ?l)])
             = Inr ''PNG files up to 4MB, max 5''"
    using single_key_many_files_label [OF h1 h2 h3] unfolding t d by (simp add: v)
  have b: "allowedContentTextLabelGenerator (Some [(''image'', ?l)])
             = Inr ''Images up to 4MB, max 5''"
    using single_key_many_files_label [OF h1 h2 h4] unfolding u d by (simp add: w)
  from h1 h3 h4 a b show ?thesis by simp
qed

text \<open>
  The hypothesis on the key is needed. The capital letter goes to the start of the whole
  label, not of the token: under the empty string as key, which the key type does not
  admit, the token is empty and the label starts with the \<open>"s"\<close> of \<open>"s up to"\<close> in
  upper case.
\<close>

lemma empty_key_many_files_label:
  "allowedContentTextLabelGenerator
     (Some [([], \<lparr>maxFileSize = ''4MB'', maxFileCount = Some 5\<rparr>)])
     = Inr ''S up to 4MB, max 5''"
  by code_simp

section \<open>The config without keys\<close>

text \<open>
  C7. For a config that is present and has no key, the list of tokens is empty, so the
  branch for several tokens is not taken; the first key is \<open>undefined\<close>, the config has
  no limits under it, and reading \<open>maxFileSize\<close> and \<open>maxFileCount\<close> from that missing
  value throws: neither the formatter nor the label generator returns a string.
\<close>

theorem empty_config_throws:
  "map_result formatType (Object_keys []) = Inr []
   \<and> \<not> 1 < length ([] :: string list)
   \<and> index_at (Object_keys []) 0 = None
   \<and> get_property [] (index_at (Object_keys []) 0) = None
   \<and> INTERNAL_doFormatting (Some []) = Inl TypeError
   \<and> allowedContentTextLabelGenerator (Some []) = Inl TypeError"
  by (simp add: Object_keys_def index_at_def get_property_def INTERNAL_doFormatting_def
      allowedContentTextLabelGenerator_def)

section \<open>The permitted file types\<close>

text \<open>
  C6. For every config, absent or empty ones included, \<open>multiple\<close> is true exactly when
  the config is present and one of its entries has a \<open>maxFileCount\<close> that is present,
  truthy (not 0) and greater than 1; it is false for the absent and for the empty
  config; \<open>fileTypes\<close> is the list of the config's keys in their order, the empty list
  for the absent config.
\<close>

theorem generatePermittedFileTypes_derivation:
  "multiple (generatePermittedFileTypes config) =
     (\<exists>c. config = Some c
        \<and> (\<exists>l \<in> set (Object_values c). \<exists>n. maxFileCount l = Some n \<and> n \<noteq> 0 \<and> 1 < n))
   \<and> fileTypes (generatePermittedFileTypes config) =
       (case config of None \<Rightarrow> [] | Some c \<Rightarrow> map fst c)
   \<and> \<not> multiple (generatePermittedFileTypes None)
   \<and> \<not> multiple (generatePermittedFileTypes (Some []))
   \<and> fileTypes (generatePermittedFileTypes None) = []"
proof -
  have cao: "count_above_one v = (\<exists>n. v = Some n \<and> n \<noteq> 0 \<and> 1 < n)" for v
    by (cases v) (simp_all add: count_above_one_def)
  have m: "multiple (generatePermittedFileTypes config) =
     (\<exists>c. config = Some c
        \<and> (\<exists>l \<in> set (Object_values c). \<exists>n. maxFileCount l = Some n \<and> n \<noteq> 0 \<and> 1 < n))"
  proof (cases config)
    case None
    then show ?thesis by (simp add: generatePermittedFileTypes_def)
  next
    case (Some c)
    then show ?thesis
      by (simp add: generatePermittedFileTypes_def list_ex_iff cao)
  qed
  have f: "fileTypes (generatePermittedFileTypes config) =
       (case config of None \<Rightarrow> [] | Some c \<Rightarrow> map fst c)"
    by (simp add: generatePermittedFileTypes_def Object_keys_def split: option.splits)
  have e: "\<not> multiple (generatePermittedFileTypes None)"
    "\<not> multiple (generatePermittedFileTypes (Some []))"
    "fileTypes (generatePermittedFileTypes None) = []"
    by (simp_all add: generatePermittedFileTypes_def Object_values_def)
  from m f e show ?thesis by blast
qed

text \<open>
  Two configs of two keys: one with a count of 3, and one whose counts are 0 and
  absent.
\<close>

theorem generatePermittedFileTypes_derivation_witness:
  "multiple (generatePermittedFileTypes (Some
      [(''image'', \<lparr>maxFileSize = ''4MB'', maxFileCount = Some 1\<rparr>),
       (''pdf'', \<lparr>maxFileSize = ''8MB'', maxFileCount = Some 3\<rparr>)]))
   \<and> fileTypes (generatePermittedFileTypes (Some
      [(''image'', \<lparr>maxFileSize = ''4MB'', maxFileCount = Some 1\<rparr>),
       (''pdf'', \<lparr>maxFileSize = ''8MB'', maxFileCount = Some 3\<rparr>)])) = [''image'', ''pdf'']
   \<and> \<not> multiple (generatePermittedFileTypes (Some
      [(''image'', \<lparr>maxFileSize = ''4MB'', maxFileCount = Some 0\<rparr>),
       (''pdf'', \<lparr>maxFileSize = ''8MB'', maxFileCount = None\<rparr>)]))"
proof -
  let ?c = "[(''image'', \<lparr>maxFileSize = ''4MB'', maxFileCount = Some 1\<rparr>),
       (''pdf'', \<lparr>maxFileSize = ''8MB'', maxFileCount = Some 3\<rparr>)]"
  let ?d = "[(''image'', \<lparr>maxFileSize = ''4MB'', maxFileCount = Some 0\<rparr>),
       (''pdf'', \<lparr>maxFileSize = ''8MB'', maxFileCount = None\<rparr>)]"
  have a: "multiple (generatePermittedFileTypes (Some ?c))"
    using generatePermittedFileTypes_derivation [of "Some ?c"]
    by (simp add: Object_values_def)
  have b: "fileTypes (generatePermittedFileTypes (Some ?c)) = [''image'', ''pdf'']"
    using generatePermittedFileTypes_derivation [of "Some ?c"] by simp
  have c: "\<not> multiple (generatePermittedFileTypes (Some ?d))"
    using generatePermittedFileTypes_derivation [of "Some ?d"]
    by (simp add: Object_values_def)
  from a b c show ?thesis by simp
qed

section \<open>The widgets\<close>

text \<open>
  C8, as the code has it. Both widgets hand the upload hook the caller's own
  \<open>onUploadError\<close> as the error callback. When that callback is called with an error,
  the caller-supplied callback runs on the error, and whether it returns or throws the
  widget's local state, the progress included, is left as it was.
\<close>

theorem upload_error_keeps_progress:
  assumes "onUploadError p = Some f"
  shows "invoke (opt_onUploadError (UploadButton_opts p)) e (b, w) =
           Inr (case f e w of
                  Returned w1 \<Rightarrow> Returned (b, w1)
                | Thrown t w1 \<Rightarrow> Thrown t (b, w1))
         \<and> invoke (opt_onUploadError (UploadDropzone_opts p)) e (d, w) =
             Inr (case f e w of
                    Returned w1 \<Rightarrow> Returned (d, w1)
                  | Thrown t w1 \<Rightarrow> Thrown t (d, w1))"
  using assms
  by (simp add: invoke_def UploadButton_opts_def UploadDropzone_opts_def caller_callback_def
      split: outcome.splits)

text \<open>
  A caller that records its errors and one that throws them again, with both widgets
  at a progress of 50.
\<close>

theorem upload_error_keeps_progress_witness:
  "onUploadError logging_props = Some record_error
   \<and> invoke (opt_onUploadError (UploadButton_opts logging_props)) ''failed''
        (\<lparr>uploadProgress = 50, fileInput_value = Some ''a.png''\<rparr>, [])
      = Inr (Returned (\<lparr>uploadProgress = 50, fileInput_value = Some ''a.png''\<rparr>, [''failed'']))
   \<and> invoke (opt_onUploadError (UploadDropzone_opts logging_props)) ''failed''
        (\<lparr>uploadProgress = 50, files = [''a.png'']\<rparr>, [])
      = Inr (Returned (\<lparr>uploadProgress = 50, files = [''a.png'']\<rparr>, [''failed'']))
   \<and> onUploadError rethrowing_props = Some rethrow_error
   \<and> invoke (opt_onUploadError (UploadButton_opts rethrowing_props)) ''failed''
        (\<lparr>uploadProgress = 50, fileInput_value = Some ''a.png''\<rparr>, [])
      = Inr (Thrown ''failed''
               (\<lparr>uploadProgress = 50, fileInput_value = Some ''a.png''\<rparr>, [''failed'']))
   \<and> invoke (opt_onUploadError (UploadDropzone_opts rethrowing_props)) ''failed''
        (\<lparr>uploadProgress = 50, files = [''a.png'']\<rparr>, [])
      = Inr (Thrown ''failed'' (\<lparr>uploadProgress = 50, files = [''a.png'']\<rparr>, [''failed'']))"
proof -
  have h: "onUploadError logging_props = Some record_error"
    by (simp add: logging_props_def)
  have g: "onUploadError rethrowing_props = Some rethrow_error"
    by (simp add: rethrowing_props_def)
  show ?thesis
    using h g
      upload_error_keeps_progress [OF h, of "''failed''"
        "\<lparr>uploadProgress = 50, fileInput_value = Some ''a.png''\<rparr>" "[]"
        "\<lparr>uploadProgress = 50, files = [''a.png'']\<rparr>"]
      upload_error_keeps_progress [OF g, of "''failed''"
        "\<lparr>uploadProgress = 50, fileInput_value = Some ''a.png''\<rparr>" "[]"
        "\<lparr>uploadProgress = 50, files = [''a.png'']\<rparr>"]
    by (simp add: record_error_def rethrow_error_def)
qed

text \<open>
  C8, as it is claimed: the error callback would set the local progress back to 0. At
  a progress of 50 the error callback of either widget runs the caller's callback and
  leaves the progress at 50.
\<close>

theorem upload_error_progress_not_reset:
  "invoke (opt_onUploadError (UploadButton_opts logging_props)) ''failed''
        (\<lparr>uploadProgress = 50, fileInput_value = Some ''a.png''\<rparr>, [])
      = Inr (Returned (\<lparr>uploadProgress = 50, fileInput_value = Some ''a.png''\<rparr>, [''failed'']))
   \<and> uploadProgress \<lparr>uploadProgress = 50, fileInput_value = Some ''a.png''\<rparr> \<noteq> 0
   \<and> invoke (opt_onUploadError (UploadDropzone_opts logging_props)) ''failed''
        (\<lparr>uploadProgress = 50, files = [''a.png'']\<rparr>, [])
      = Inr (Returned (\<lparr>uploadProgress = 50, files = [''a.png'']\<rparr>, [''failed'']))
   \<and> uploadProgress \<lparr>uploadProgress = 50, files = [''a.png'']\<rparr> \<noteq> 0"
  by (simp add: invoke_def UploadButton_opts_def UploadDropzone_opts_def caller_callback_def
      logging_props_def record_error_def)

text \<open>
  C9. While the dropzone holds a non-empty list of \<open>N\<close> selected files and no upload is
  running, its upload button reads \<open>"Upload N file"\<close> when \<open>N\<close> is 1 and
  \<open>"Upload N files"\<close> otherwise.
\<close>

theorem dropzone_trigger_text:
  assumes "files d \<noteq> []"
  shows "UploadDropzone_trigger d False =
           Some (Text (''Upload '' @ Number_toString (int (length (files d)))
                       @ (if length (files d) = 1 then '' file'' else '' files'')))"
  using assms by (simp add: UploadDropzone_trigger_def)

text \<open>One selected file reads \<open>"Upload 1 file"\<close>, two read \<open>"Upload 2 files"\<close>.\<close>

theorem dropzone_trigger_text_witness:
  "files \<lparr>uploadProgress = 0, files = [''a.png'']\<rparr> \<noteq> []
   \<and> UploadDropzone_trigger \<lparr>uploadProgress = 0, files = [''a.png'']\<rparr> False
       = Some (Text ''Upload 1 file'')
   \<and> files \<lparr>uploadProgress = 0, files = [''a.png'', ''b.png'']\<rparr> \<noteq> []
   \<and> UploadDropzone_trigger \<lparr>uploadProgress = 0, files = [''a.png'', ''b.png'']\<rparr> False
       = Some (Text ''Upload 2 files'')"
proof -
  let ?d1 = "\<lparr>uploadProgress = 0, files = [''a.png'']\<rparr>"
  let ?d2 = "\<lparr>uploadProgress = 0, files = [''a.png'', ''b.png'']\<rparr>"
  have h1: "files ?d1 \<noteq> []" and h2: "files ?d2 \<noteq> []"
    by simp_all
  have n1: "Number_toString 1 = ''1''" and n2: "Number_toString 2 = ''2''"
    by code_simp+
  show ?thesis
    using dropzone_trigger_text [OF h1] dropzone_trigger_text [OF h2]
    by (simp add: n1 n2)
qed

end
